theory Spec2Isabelle
  imports Main
begin

section \<open>GitHub Profile Analyzer: the query cycle of \<^verbatim>\<open>src/App.tsx\<close>\<close>

text \<open>
  The component \<^verbatim>\<open>App\<close> holds seven state slots and one asynchronous function,
  \<^verbatim>\<open>fetchGitHubData\<close>, that fetches a profile, a repository list and an event list one
  after the other, derives a language histogram and a daily activity series, and publishes
  them through the state setters. This theory embeds that function: the data as records,
  the two \<^verbatim>\<open>reduce\<close> folds over a JavaScript object as folds over an ordered
  property list, \<^verbatim>\<open>Array.prototype.sort\<close> as a stable sort by a comparator, and the
  \<^verbatim>\<open>try\<close>/\<^verbatim>\<open>catch\<close>/\<^verbatim>\<open>finally\<close> block as a function from the state before the
  call to the state after it together with the states published while each request was
  in flight.
\<close>

subsection \<open>Data model (the interfaces of lines 13 to 44)\<close>

text \<open>
  JavaScript numbers are modelled as unbounded integers: the counts and sums computed here
  are sums of integers delivered by the API and are exact in double precision below
  \<open>2^53\<close>. The field \<^verbatim>\<open>language\<close> is declared \<^verbatim>\<open>string\<close>, but the API delivers
  \<^verbatim>\<open>null\<close> for a repository with no detected language and the code tests the field for
  truthiness, so it is an optional string here (\<open>None\<close> is \<^verbatim>\<open>null\<close>). Field names are
  the source's, prefixed where two interfaces share a name.
\<close>

record Repository =
  repo_id :: int
  repo_name :: string
  description :: string
  stargazers_count :: int
  language :: "string option"
  html_url :: string
  forks_count :: int
  repo_created_at :: string
  updated_at :: string

record UserProfile =
  avatar_url :: string
  profile_name :: string
  login :: string
  bio :: string
  followers :: int
  following :: int
  public_repos :: int
  profile_created_at :: string

record CommitData =
  date :: string
  commit_count :: int

record LanguageStats =
  lang_name :: string
  lang_count :: int

text \<open>
  An element of the event listing (typed \<^verbatim>\<open>any\<close> in the source). Only three of its
  fields are read: \<^verbatim>\<open>type\<close>, \<^verbatim>\<open>created_at\<close> and \<^verbatim>\<open>payload.size\<close>.
\<close>

record event =
  event_type :: string
  created_at :: string
  payload_size :: int

subsection \<open>The JavaScript runtime: objects as dictionaries, sort, Date\<close>

text \<open>
  An object created by \<^verbatim>\<open>{}\<close> and used as a dictionary: its own properties in creation
  order, which is the order \<^verbatim>\<open>Object.entries\<close> lists them in. The keys stored here are
  language names and locale date strings; they are taken to be ordinary property names,
  that is, neither canonical array indices (which \<^verbatim>\<open>Object.entries\<close> would list first)
  nor names of members inherited from \<^verbatim>\<open>Object.prototype\<close> such as
  \<^verbatim>\<open>constructor\<close> (for which \<^verbatim>\<open>acc[k]\<close> would read the inherited member). No language
  name assigned by GitHub and no date string is of either kind.
\<close>

type_synonym 'v js_object = "(string \<times> 'v) list"

text \<open>\<^verbatim>\<open>acc[k] || 0\<close>: the stored number, or 0 when the property is absent.\<close>

definition get_or_zero :: "int js_object \<Rightarrow> string \<Rightarrow> int" where
  "get_or_zero acc k = (case map_of acc k of None \<Rightarrow> 0 | Some n \<Rightarrow> n)"

text \<open>
  \<^verbatim>\<open>acc[k] = v\<close>: an existing property keeps its place and takes the new value, a new
  property is added after all others.
\<close>

fun js_set :: "'v js_object \<Rightarrow> string \<Rightarrow> 'v \<Rightarrow> 'v js_object" where
  "js_set [] k v = [(k, v)]"
| "js_set ((k', v') # kvs) k v =
     (if k' = k then (k, v) # kvs else (k', v') # js_set kvs k v)"

text \<open>\<^verbatim>\<open>Object.entries(obj)\<close>: the own properties as pairs, in creation order.\<close>

definition Object_entries :: "'v js_object \<Rightarrow> (string \<times> 'v) list" where
  "Object_entries obj = obj"

text \<open>
  \<^verbatim>\<open>xs.sort(cmp)\<close>. The language requires the sort to be stable and to order \<open>a\<close> before
  \<open>b\<close> when \<open>cmp a b < 0\<close>; for a comparator that is a consistent ordering this fixes the
  result, and the insertion sort below computes it. (For an inconsistent comparator the
  language leaves the order to the implementation; the result is still a permutation.)
\<close>

fun insert_by :: "('a \<Rightarrow> 'a \<Rightarrow> int) \<Rightarrow> 'a \<Rightarrow> 'a list \<Rightarrow> 'a list" where
  "insert_by cmp x [] = [x]"
| "insert_by cmp x (y # ys) =
     (if cmp x y \<le> 0 then x # y # ys else y # insert_by cmp x ys)"

definition js_sort :: "('a \<Rightarrow> 'a \<Rightarrow> int) \<Rightarrow> 'a list \<Rightarrow> 'a list" where
  "js_sort cmp xs = foldr (insert_by cmp) xs []"

text \<open>
  The two uses of \<^verbatim>\<open>Date\<close> depend on the browser, its locale and its time zone, none of
  which is part of the repository; they are parameters of the model.
  \<^item> \<open>toLocaleDateString D s\<close> is \<^verbatim>\<open>new Date(s).toLocaleDateString()\<close>: the local calendar
    date of the timestamp \<open>s\<close>, formatted for the locale.
  \<^item> \<open>getTime D s\<close> is \<^verbatim>\<open>new Date(s).getTime()\<close>: the instant (milliseconds since the
    epoch) that the runtime's date parser reads from \<open>s\<close>, or \<open>None\<close> when it answers
    \<^verbatim>\<open>NaN\<close> (an invalid date).
\<close>

record Date_api =
  toLocaleDateString :: "string \<Rightarrow> string"
  getTime :: "string \<Rightarrow> int option"

subsection \<open>Language statistics (lines 75 to 85)\<close>

text \<open>The test \<^verbatim>\<open>if (repo.language)\<close>: neither \<^verbatim>\<open>null\<close> nor the empty string.\<close>

definition has_language :: "Repository \<Rightarrow> bool" where
  "has_language repo = (case language repo of None \<Rightarrow> False | Some l \<Rightarrow> l \<noteq> [])"

definition langMap :: "Repository list \<Rightarrow> int js_object" where
  "langMap reposData =
     foldl (\<lambda>acc repo.
        case language repo of
          None \<Rightarrow> acc
        | Some l \<Rightarrow> if l \<noteq> [] then js_set acc l (get_or_zero acc l + 1) else acc)
       [] reposData"

definition langStats :: "Repository list \<Rightarrow> LanguageStats list" where
  "langStats reposData =
     js_sort (\<lambda>a b. lang_count b - lang_count a)
       (map (\<lambda>(name, count). \<lparr>lang_name = name, lang_count = count\<rparr>)
          (Object_entries (langMap reposData)))"

subsection \<open>Commit activity (lines 92 to 102)\<close>

definition commitsByDate :: "Date_api \<Rightarrow> event list \<Rightarrow> int js_object" where
  "commitsByDate D eventsData =
     foldl (\<lambda>acc event.
        let date = toLocaleDateString D (created_at event)
        in js_set acc date (get_or_zero acc date + payload_size event))
       [] (filter (\<lambda>event. event_type event = ''PushEvent'') eventsData)"

text \<open>
  The comparator \<^verbatim>\<open>new Date(a.date).getTime() - new Date(b.date).getTime()\<close>. Both
  operands are integers of magnitude at most \<open>8.64 * 10^15\<close>, so the sign of the
  double-precision difference is the sign of the exact one. When either operand is
  \<^verbatim>\<open>NaN\<close> so is the difference, which \<^verbatim>\<open>sort\<close> reads as 0.
\<close>

definition date_cmp :: "Date_api \<Rightarrow> CommitData \<Rightarrow> CommitData \<Rightarrow> int" where
  "date_cmp D a b =
     (case (getTime D (date a), getTime D (date b)) of
        (Some ta, Some tb) \<Rightarrow> ta - tb
      | _ \<Rightarrow> 0)"

definition processedCommitData :: "Date_api \<Rightarrow> event list \<Rightarrow> CommitData list" where
  "processedCommitData D eventsData =
     js_sort (date_cmp D)
       (map (\<lambda>(d, count). \<lparr>date = d, commit_count = count\<rparr>)
          (Object_entries (commitsByDate D eventsData)))"

subsection \<open>The component state and the network\<close>

record app_state =
  username :: string
  repos :: "Repository list"
  profile :: "UserProfile option"
  commitData :: "CommitData list"
  languageStats :: "LanguageStats list"
  loading :: bool
  error :: string

text \<open>
  A thrown value: an \<^verbatim>\<open>Error\<close> object with its message (a rejected \<^verbatim>\<open>fetch\<close> throws
  a \<^verbatim>\<open>TypeError\<close>, a body that is not JSON a \<^verbatim>\<open>SyntaxError\<close>), or any other value.
\<close>

datatype exn = Error string | Thrown_value

text \<open>
  What \<^verbatim>\<open>await fetch(url)\<close> yields: the promise is rejected with a thrown value, or it
  resolves to a response with its \<^verbatim>\<open>ok\<close> flag and the outcome of \<^verbatim>\<open>await response.json()\<close>.
\<close>

record 'a Response =
  ok :: bool
  json :: "exn + 'a"

type_synonym 'a fetched = "exn + 'a Response"

text \<open>The upstream API as the three requests see it, each a function of the request URL.\<close>

record network =
  fetch_profile :: "string \<Rightarrow> UserProfile fetched"
  fetch_repos :: "string \<Rightarrow> Repository list fetched"
  fetch_events :: "string \<Rightarrow> event list fetched"

definition profile_url :: "string \<Rightarrow> string" where
  "profile_url u = ''https://api.github.com/users/'' @ u"

definition repos_url :: "string \<Rightarrow> string" where
  "repos_url u = ''https://api.github.com/users/'' @ u @ ''/repos?sort=updated&per_page=100''"

definition events_url :: "string \<Rightarrow> string" where
  "events_url u = ''https://api.github.com/users/'' @ u @ ''/events''"

subsection \<open>\<^verbatim>\<open>fetchGitHubData\<close> (lines 55 to 114)\<close>

text \<open>
  The three statements \<^verbatim>\<open>const r = await fetch(url); if (!r.ok) throw new Error(msg);
  const data = await r.json()\<close>: the payload, or the value thrown.
\<close>

definition fetch_json :: "'a fetched \<Rightarrow> string \<Rightarrow> exn + 'a" where
  "fetch_json r msg =
     (case r of
        Inl e \<Rightarrow> Inl e
      | Inr response \<Rightarrow> if \<not> ok response then Inl (Error msg) else json response)"

text \<open>
  The \<^verbatim>\<open>try\<close> block. It returns the value thrown (if any), the state after the last
  setter it ran, and, for each request it issued, the URL with the state that was
  published while that request was awaited.
\<close>

definition try_block ::
  "Date_api \<Rightarrow> network \<Rightarrow> app_state \<Rightarrow> exn option \<times> app_state \<times> (string \<times> app_state) list"
where
  "try_block D N s0 =
     (let u1 = profile_url (username s0) in
      case fetch_json (fetch_profile N u1) ''User not found or API limit exceeded'' of
        Inl e \<Rightarrow> (Some e, s0, [(u1, s0)])
      | Inr profileData \<Rightarrow>
          let s1 = s0\<lparr>profile := Some profileData\<rparr>;
              u2 = repos_url (username s0) in
          (case fetch_json (fetch_repos N u2) ''Failed to fetch repositories'' of
             Inl e \<Rightarrow> (Some e, s1, [(u1, s0), (u2, s1)])
           | Inr reposData \<Rightarrow>
               let s2 = s1\<lparr>repos := reposData, languageStats := langStats reposData\<rparr>;
                   u3 = events_url (username s0) in
               (case fetch_json (fetch_events N u3) ''Failed to fetch commit data'' of
                  Inl e \<Rightarrow> (Some e, s2, [(u1, s0), (u2, s1), (u3, s2)])
                | Inr eventsData \<Rightarrow>
                    (None, s2\<lparr>commitData := processedCommitData D eventsData\<rparr>,
                     [(u1, s0), (u2, s1), (u3, s2)]))))"

text \<open>The \<^verbatim>\<open>catch\<close> block (lines 105 to 110) and the \<^verbatim>\<open>finally\<close> block (line 112).\<close>

definition catch_block :: "exn \<Rightarrow> app_state \<Rightarrow> app_state" where
  "catch_block err s =
     s\<lparr>error := (case err of Error message \<Rightarrow> message | Thrown_value \<Rightarrow> ''An error occurred''),
       profile := None,
       repos := [],
       commitData := [],
       languageStats := []\<rparr>"

definition finally_block :: "app_state \<Rightarrow> app_state" where
  "finally_block s = s\<lparr>loading := False\<rparr>"

text \<open>
  One call of \<^verbatim>\<open>fetchGitHubData\<close> from state \<open>s\<close>: the state after the call (\<open>final\<close>),
  and the requests issued, each with the state published while it was in flight
  (\<open>in_flight\<close>).
\<close>

record run =
  final :: app_state
  in_flight :: "(string \<times> app_state) list"

definition fetchGitHubData :: "Date_api \<Rightarrow> network \<Rightarrow> app_state \<Rightarrow> run" where
  "fetchGitHubData D N s =
     (if username s = [] then \<lparr>final = s, in_flight = []\<rparr>
      else
        let s0 = s\<lparr>loading := True, error := []\<rparr> in
        case try_block D N s0 of
          (None, s', reqs) \<Rightarrow> \<lparr>final = finally_block s', in_flight = reqs\<rparr>
        | (Some err, s', reqs) \<Rightarrow> \<lparr>final = finally_block (catch_block err s'), in_flight = reqs\<rparr>)"

subsection \<open>Vocabulary of the statements\<close>

text \<open>
  The notions the properties below are stated with. None of them is part of the program.
  \<^item> \<open>lang_of\<close>: the language of a repository that has one.
  \<^item> \<open>is_push\<close>, \<open>local_date\<close>, \<open>pushes_on\<close>: the push events, the date string an event
    is filed under, and the push events of a listing filed under a given date string.
  \<^item> \<open>instant\<close>: the instant the runtime reconstructs from the date of an entry.
  \<^item> \<open>fetch_fails\<close>: a request fails when the promise is rejected, the response is not
    \<^verbatim>\<open>ok\<close>, or its body cannot be read as JSON.
  \<^item> \<open>thrown_with_message\<close>: if the runtime throws an \<^verbatim>\<open>Error\<close> for this request, the
    error carries a non-empty message (as the \<^verbatim>\<open>TypeError\<close> of a rejected \<^verbatim>\<open>fetch\<close> and
    the \<^verbatim>\<open>SyntaxError\<close> of \<^verbatim>\<open>json()\<close> do in every browser).
  \<^item> \<open>cleared\<close>: the four published views are empty.
\<close>

definition lang_of :: "Repository \<Rightarrow> string" where
  "lang_of repo = (case language repo of None \<Rightarrow> [] | Some l \<Rightarrow> l)"

definition is_push :: "event \<Rightarrow> bool" where
  "is_push e = (event_type e = ''PushEvent'')"

definition local_date :: "Date_api \<Rightarrow> event \<Rightarrow> string" where
  "local_date D e = toLocaleDateString D (created_at e)"

definition pushes_on :: "Date_api \<Rightarrow> event list \<Rightarrow> string \<Rightarrow> event list" where
  "pushes_on D E d = filter (\<lambda>e. is_push e \<and> local_date D e = d) E"


definition fetch_fails :: "'a fetched \<Rightarrow> bool" where
  "fetch_fails r =
     (case r of Inl e \<Rightarrow> True | Inr response \<Rightarrow> \<not> ok response \<or> isl (json response))"

definition thrown_with_message :: "'a fetched \<Rightarrow> bool" where
  "thrown_with_message r =
     (case r of
        Inl e \<Rightarrow> e \<noteq> Error []
      | Inr response \<Rightarrow> \<not> ok response \<or> json response \<noteq> Inl (Error []))"

definition cleared :: "app_state \<Rightarrow> bool" where
  "cleared s =
     (profile s = None \<and> repos s = [] \<and> languageStats s = [] \<and> commitData s = [])"

text \<open>
  The shape the two \<^verbatim>\<open>reduce\<close> calls share, used in the proofs: each element \<open>x\<close> adds
  its weight \<open>w x\<close> to the property named \<open>k x\<close>.
\<close>

fun tally :: "('a \<Rightarrow> string) \<Rightarrow> ('a \<Rightarrow> int) \<Rightarrow> int js_object \<Rightarrow> 'a list \<Rightarrow> int js_object" where
  "tally k w acc [] = acc"
| "tally k w acc (x # xs) = tally k w (js_set acc (k x) (get_or_zero acc (k x) + w x)) xs"

subsection \<open>Example data\<close>

text \<open>
  A browser with the locale en-US in the time zone UTC, on the timestamps and date strings
  of the examples. The three date strings are not in chronological order when compared as
  strings.
\<close>

definition en_US_UTC :: Date_api where
  "en_US_UTC =
     \<lparr>toLocaleDateString = (\<lambda>s.
        if s = ''2023-12-31T23:00:00Z'' then ''12/31/2023''
        else if s = ''2024-01-01T09:00:00Z'' then ''1/1/2024''
        else if s = ''2024-01-02T10:00:00Z'' then ''1/2/2024''
        else if s = ''2024-01-02T18:30:00Z'' then ''1/2/2024''
        else ''Invalid Date''),
      getTime = (\<lambda>s.
        if s = ''12/31/2023'' then Some 1703980800000
        else if s = ''1/1/2024'' then Some 1704067200000
        else if s = ''1/2/2024'' then Some 1704153600000
        else None)\<rparr>"

definition push :: "string \<Rightarrow> int \<Rightarrow> event" where
  "push t n = \<lparr>event_type = ''PushEvent'', created_at = t, payload_size = n\<rparr>"

definition watch :: "string \<Rightarrow> event" where
  "watch t = \<lparr>event_type = ''WatchEvent'', created_at = t, payload_size = 0\<rparr>"

definition example_events :: "event list" where
  "example_events =
     [push ''2024-01-02T18:30:00Z'' 2,
      watch ''2024-01-02T10:00:00Z'',
      push ''2023-12-31T23:00:00Z'' 1,
      push ''2024-01-01T09:00:00Z'' 4,
      push ''2024-01-02T10:00:00Z'' 5]"

definition repo :: "int \<Rightarrow> string option \<Rightarrow> Repository" where
  "repo n l =
     \<lparr>repo_id = n, repo_name = ''r'', description = [], stargazers_count = 0, language = l,
      html_url = [], forks_count = 0, repo_created_at = [], updated_at = []\<rparr>"

definition example_repos :: "Repository list" where
  "example_repos =
     [repo 1 (Some ''TypeScript''), repo 2 None, repo 3 (Some ''Go''), repo 4 (Some []),
      repo 5 (Some ''Go'')]"

text \<open>
  The state after a completed query for the user alice, with the name bob typed into the
  input; an upstream that answers the three requests for bob; and three upstreams that
  fail at the first, the second and the third request.
\<close>

definition profile_of :: "string \<Rightarrow> UserProfile" where
  "profile_of u =
     \<lparr>avatar_url = [], profile_name = u, login = u, bio = [], followers = 0, following = 0,
      public_repos = 1, profile_created_at = ''2020-01-01T00:00:00Z''\<rparr>"

definition after_alice :: app_state where
  "after_alice =
     \<lparr>username = ''bob'',
      repos = [repo 1 (Some ''TypeScript'')],
      profile = Some (profile_of ''alice''),
      commitData = [\<lparr>date = ''1/1/2024'', commit_count = 4\<rparr>],
      languageStats = [\<lparr>lang_name = ''TypeScript'', lang_count = 1\<rparr>],
      loading = False,
      error = []\<rparr>"

definition responds :: "string \<Rightarrow> 'a \<Rightarrow> string \<Rightarrow> 'a fetched" where
  "responds url x =
     (\<lambda>u. if u = url then Inr \<lparr>ok = True, json = Inr x\<rparr>
          else Inr \<lparr>ok = False, json = Inl (Error ''Unexpected token'')\<rparr>)"

definition network_up :: network where
  "network_up =
     \<lparr>fetch_profile = responds ''https://api.github.com/users/bob'' (profile_of ''bob''),
      fetch_repos =
        responds ''https://api.github.com/users/bob/repos?sort=updated&per_page=100''
          [repo 7 (Some ''Go'')],
      fetch_events = responds ''https://api.github.com/users/bob/events'' example_events\<rparr>"

definition profile_missing :: network where
  "profile_missing =
     network_up\<lparr>fetch_profile := \<lambda>u. Inr \<lparr>ok = False, json = Inl (Error ''Unexpected token'')\<rparr>\<rparr>"

definition repos_unreachable :: network where
  "repos_unreachable = network_up\<lparr>fetch_repos := \<lambda>u. Inl (Error ''Failed to fetch'')\<rparr>"

definition events_malformed :: network where
  "events_malformed =
     network_up\<lparr>fetch_events := \<lambda>u. Inr \<lparr>ok = True, json = Inl (Error ''Unexpected token'')\<rparr>\<rparr>"

definition failed_with :: "string \<Rightarrow> app_state" where
  "failed_with message =
     \<lparr>username = ''bob'', repos = [], profile = None, commitData = [], languageStats = [],
      loading = False, error = message\<rparr>"

section \<open>Lemmas\<close>

subsection \<open>Objects and sort\<close>

lemma map_of_js_set: "map_of (js_set acc k v) = (map_of acc)(k \<mapsto> v)"
  by (induction acc) (auto simp: fun_eq_iff)

lemma keys_js_set:
  "map fst (js_set acc k v) = (if k \<in> fst ` set acc then map fst acc else map fst acc @ [k])"
  by (induction acc) force+

lemma set_js_set: "fst ` set (js_set acc k v) = insert k (fst ` set acc)"
  by (induction acc) force+

lemma distinct_js_set: "distinct (map fst acc) \<Longrightarrow> distinct (map fst (js_set acc k v))"
  by (simp add: keys_js_set)

lemma sum_js_set:
  "sum_list (map snd (js_set acc k v)) = sum_list (map snd acc) - get_or_zero acc k + v"
  by (induction acc) (auto simp: get_or_zero_def)

lemma get_or_zero_js_set:
  "get_or_zero (js_set acc k v) d = (if d = k then v else get_or_zero acc d)"
  by (simp add: get_or_zero_def map_of_js_set)

lemma keys_tally: "fst ` set (tally k w acc xs) = fst ` set acc \<union> k ` set xs"
proof (induction xs arbitrary: acc)
  case Nil
  show ?case by simp
next
  case (Cons x xs)
  show ?case by (simp add: Cons.IH set_js_set)
qed

lemma distinct_tally:
  "distinct (map fst acc) \<Longrightarrow> distinct (map fst (tally k w acc xs))"
  by (induction xs arbitrary: acc) (simp_all add: distinct_js_set)

lemma get_or_zero_tally:
  "get_or_zero (tally k w acc xs) d =
     get_or_zero acc d + sum_list (map w (filter (\<lambda>x. k x = d) xs))"
  by (induction xs arbitrary: acc) (auto simp: get_or_zero_js_set)

lemma sum_tally:
  "sum_list (map snd (tally k w acc xs)) = sum_list (map snd acc) + sum_list (map w xs)"
  by (induction xs arbitrary: acc) (simp_all add: sum_js_set)

lemma entry_tally:
  assumes "(d, c) \<in> set (tally k w [] xs)"
  shows "c = sum_list (map w (filter (\<lambda>x. k x = d) xs))"
proof -
  have "distinct (map fst (tally k w [] xs))" by (simp add: distinct_tally)
  with assms have "map_of (tally k w [] xs) d = Some c" by simp
  then have "get_or_zero (tally k w [] xs) d = c" by (simp add: get_or_zero_def)
  moreover have "get_or_zero [] d = 0" by (simp add: get_or_zero_def)
  ultimately show ?thesis by (simp add: get_or_zero_tally)
qed

lemma set_insert_by: "set (insert_by cmp x ys) = insert x (set ys)"
  by (induction ys) auto

lemma set_js_sort: "set (js_sort cmp xs) = set xs"
  unfolding js_sort_def by (induction xs) (simp_all add: set_insert_by)

lemma distinct_map_insert_by:
  "distinct (map f (insert_by cmp x ys)) = (f x \<notin> f ` set ys \<and> distinct (map f ys))"
  by (induction ys) (auto simp: set_insert_by)

lemma distinct_map_js_sort: "distinct (map f (js_sort cmp xs)) = distinct (map f xs)"
  unfolding js_sort_def
  by (induction xs) (simp_all add: distinct_map_insert_by set_js_sort [unfolded js_sort_def])

lemma sum_list_insert_by:
  "sum_list (map f (insert_by cmp x ys)) = (f x :: int) + sum_list (map f ys)"
  by (induction ys) auto

lemma sum_list_js_sort: "sum_list (map f (js_sort cmp xs)) = (sum_list (map f xs) :: int)"
  unfolding js_sort_def by (induction xs) (simp_all add: sum_list_insert_by)

lemma insert_by_insort_key:
  "\<forall>y\<in>set ys. (cmp x y \<le> 0) = (f x \<le> f y) \<Longrightarrow> insert_by cmp x ys = insort_key f x ys"
  by (induction ys) auto

lemma js_sort_sort_key:
  "\<forall>x\<in>set xs. \<forall>y\<in>set xs. (cmp x y \<le> 0) = (f x \<le> f y) \<Longrightarrow> js_sort cmp xs = sort_key f xs"
proof (induction xs)
  case Nil
  show ?case by (simp add: js_sort_def)
next
  case (Cons x xs)
  then have IH: "js_sort cmp xs = sort_key f xs" by simp
  have "\<forall>y\<in>set (sort_key f xs). (cmp x y \<le> 0) = (f x \<le> f y)"
    using Cons.prems by simp
  then have "insert_by cmp x (sort_key f xs) = insort_key f x (sort_key f xs)"
    by (rule insert_by_insort_key)
  with IH show ?case by (simp add: js_sort_def sort_key_def)
qed

subsection \<open>The language histogram\<close>

lemma langMap_fold:
  "foldl (\<lambda>acc repo.
        case language repo of
          None \<Rightarrow> acc
        | Some l \<Rightarrow> if l \<noteq> [] then js_set acc l (get_or_zero acc l + 1) else acc)
       acc R = tally lang_of (\<lambda>_. 1) acc (filter has_language R)"
  by (induction R arbitrary: acc) (auto simp: has_language_def lang_of_def split: option.splits)

lemma langMap_tally: "langMap R = tally lang_of (\<lambda>_. 1) [] (filter has_language R)"
  by (simp add: langMap_def langMap_fold)

lemma set_langStats:
  "set (langStats R) = (\<lambda>(name, count). \<lparr>lang_name = name, lang_count = count\<rparr>) ` set (langMap R)"
  by (simp add: langStats_def set_js_sort Object_entries_def)

lemma names_langStats: "lang_name ` set (langStats R) = fst ` set (langMap R)"
  by (force simp: set_langStats)

lemma langStats_filter: "langStats (filter has_language R) = langStats R"
  by (simp add: langStats_def langMap_tally)

lemma sum_langStats: "sum_list (map lang_count (langStats R)) = int (length (filter has_language R))"
proof -
  have "sum_list (map lang_count (langStats R)) = sum_list (map snd (langMap R))"
    by (simp add: langStats_def sum_list_js_sort Object_entries_def comp_def case_prod_unfold)
  also have "\<dots> = sum_list (map (\<lambda>_. 1) (filter has_language R))"
    by (simp add: langMap_tally sum_tally)
  also have "\<dots> = int (length (filter has_language R))"
    by (simp add: sum_list_triv)
  finally show ?thesis .
qed

lemma distinct_langStats: "distinct (map lang_name (langStats R))"
proof -
  have "map lang_name (map (\<lambda>(name, count). \<lparr>lang_name = name, lang_count = count\<rparr>) (langMap R))
        = map fst (langMap R)"
    by (simp add: comp_def case_prod_unfold)
  moreover have "distinct (map fst (langMap R))"
    by (simp add: langMap_tally distinct_tally)
  ultimately show ?thesis
    by (simp add: langStats_def distinct_map_js_sort Object_entries_def del: map_map)
qed

lemma declared_languages:
  "lang_of ` set (filter has_language R) = {l. l \<noteq> [] \<and> (\<exists>r\<in>set R. language r = Some l)}"
  by (auto simp: has_language_def lang_of_def image_iff split: option.splits) force

lemma count_langStats:
  assumes "s \<in> set (langStats R)"
  shows "lang_count s =
           int (length (filter (\<lambda>r. lang_of r = lang_name s) (filter has_language R)))"
    and "lang_name s \<in> lang_of ` set (filter has_language R)"
proof -
  from assms have mem: "(lang_name s, lang_count s) \<in> set (langMap R)"
    by (auto simp: set_langStats)
  then have "lang_count s =
      sum_list (map (\<lambda>_. 1) (filter (\<lambda>r. lang_of r = lang_name s) (filter has_language R)))"
    unfolding langMap_tally by (rule entry_tally)
  then show "lang_count s =
           int (length (filter (\<lambda>r. lang_of r = lang_name s) (filter has_language R)))"
    by (simp add: sum_list_triv)
  from mem have "lang_name s \<in> fst ` set (langMap R)" by force
  then show "lang_name s \<in> lang_of ` set (filter has_language R)"
    by (simp add: langMap_tally keys_tally)
qed

lemma positive_langStats:
  assumes "s \<in> set (langStats R)"
  shows "1 \<le> lang_count s"
proof -
  from count_langStats(2) [OF assms] obtain r
    where r: "r \<in> set (filter has_language R)" "lang_of r = lang_name s" by auto
  define matching where "matching = filter (\<lambda>r. lang_of r = lang_name s) (filter has_language R)"
  from r have "r \<in> set matching" by (simp add: matching_def)
  then have "matching \<noteq> []" by auto
  then have "0 < length matching" by (rule iffD2 [OF length_greater_0_conv])
  moreover have "lang_count s = int (length matching)"
    unfolding matching_def by (rule count_langStats(1) [OF assms])
  ultimately show ?thesis by linarith
qed

lemma sorted_langStats: "sorted_wrt (\<lambda>a b. lang_count b \<le> lang_count a) (langStats R)"
proof -
  have "langStats R = sort_key (\<lambda>s. - lang_count s)
           (map (\<lambda>(name, count). \<lparr>lang_name = name, lang_count = count\<rparr>) (Object_entries (langMap R)))"
    unfolding langStats_def by (rule js_sort_sort_key) auto
  then have "sorted (map (\<lambda>s. - lang_count s) (langStats R))"
    by (simp del: map_map)
  then show ?thesis
    by (simp add: sorted_map sorted_wrt_iff_nth_less)
qed

lemma langStats_Go_Go_TypeScript:
  "langStats [a\<lparr>language := Some ''Go''\<rparr>, b\<lparr>language := Some ''Go''\<rparr>,
              c\<lparr>language := Some ''TypeScript''\<rparr>]
   = [\<lparr>lang_name = ''Go'', lang_count = 2\<rparr>, \<lparr>lang_name = ''TypeScript'', lang_count = 1\<rparr>]"
  by (simp add: langStats_def langMap_def get_or_zero_def js_sort_def Object_entries_def)

subsection \<open>The activity series\<close>

lemma commitsByDate_fold:
  "foldl (\<lambda>acc event.
        let date = toLocaleDateString D (created_at event)
        in js_set acc date (get_or_zero acc date + payload_size event))
       acc xs = tally (local_date D) payload_size acc xs"
  by (induction xs arbitrary: acc) (simp_all add: local_date_def Let_def)

lemma commitsByDate_tally:
  "commitsByDate D E = tally (local_date D) payload_size [] (filter is_push E)"
proof -
  have "filter (\<lambda>event. event_type event = ''PushEvent'') E = filter is_push E"
    by (rule filter_cong) (simp_all add: is_push_def)
  then show ?thesis by (simp add: commitsByDate_def commitsByDate_fold)
qed

lemma set_processed:
  "set (processedCommitData D E) =
     (\<lambda>(d, count). \<lparr>date = d, commit_count = count\<rparr>) ` set (commitsByDate D E)"
  by (simp add: processedCommitData_def set_js_sort Object_entries_def)

lemma dates_processed:
  "date ` set (processedCommitData D E) = local_date D ` set (filter is_push E)"
proof -
  have "date ` set (processedCommitData D E) = fst ` set (commitsByDate D E)"
    by (force simp: set_processed)
  then show ?thesis by (simp add: commitsByDate_tally keys_tally)
qed

lemma distinct_processed: "distinct (map date (processedCommitData D E))"
proof -
  have "map date (map (\<lambda>(d, count). \<lparr>date = d, commit_count = count\<rparr>) (commitsByDate D E))
        = map fst (commitsByDate D E)"
    by (simp add: comp_def case_prod_unfold)
  moreover have "distinct (map fst (commitsByDate D E))"
    by (simp add: commitsByDate_tally distinct_tally)
  ultimately show ?thesis
    by (simp add: processedCommitData_def distinct_map_js_sort Object_entries_def del: map_map)
qed

lemma entry_processed:
  assumes "p \<in> set (processedCommitData D E)"
  shows "commit_count p = sum_list (map payload_size (pushes_on D E (date p)))"
proof -
  from assms have "(date p, commit_count p) \<in> set (commitsByDate D E)"
    by (auto simp: set_processed)
  then have "commit_count p =
      sum_list (map payload_size (filter (\<lambda>e. local_date D e = date p) (filter is_push E)))"
    unfolding commitsByDate_tally by (rule entry_tally)
  moreover have "filter (\<lambda>e. local_date D e = date p) (filter is_push E) = pushes_on D E (date p)"
    by (simp add: pushes_on_def conj_commute)
  ultimately show ?thesis by simp
qed

lemma processed_pushes: "processedCommitData D (filter is_push E) = processedCommitData D E"
  by (simp add: processedCommitData_def commitsByDate_tally)


subsection \<open>The query cycle\<close>

lemma fetch_json_fails: "fetch_fails r = isl (fetch_json r msg)"
  by (simp add: fetch_fails_def fetch_json_def split: sum.splits)

lemma fetch_json_message:
  "fetch_json r msg = Inl e \<Longrightarrow> msg \<noteq> [] \<Longrightarrow> thrown_with_message r \<Longrightarrow> e \<noteq> Error []"
  by (auto simp: fetch_json_def thrown_with_message_def split: sum.splits if_splits)

lemma fetch_json_ok:
  "fetch_json (Inr \<lparr>ok = True, json = Inr x\<rparr>) msg = Inr x"
  by (simp add: fetch_json_def)

lemma catch_block_cleared: "cleared (finally_block (catch_block err s))"
  by (simp add: cleared_def finally_block_def catch_block_def)

lemma catch_block_error: "err \<noteq> Error [] \<Longrightarrow> error (finally_block (catch_block err s)) \<noteq> []"
  by (cases err) (simp_all add: finally_block_def catch_block_def)

lemma finally_block_loading: "\<not> loading (finally_block s)"
  by (simp add: finally_block_def)

lemma try_block_thrown:
  assumes "try_block D N s0 = (Some err, s', reqs)"
  shows "fetch_json (fetch_profile N (profile_url (username s0))) ''User not found or API limit exceeded'' = Inl err
       \<or> fetch_json (fetch_repos N (repos_url (username s0))) ''Failed to fetch repositories'' = Inl err
       \<or> fetch_json (fetch_events N (events_url (username s0))) ''Failed to fetch commit data'' = Inl err"
  using assms by (auto simp: try_block_def Let_def split: sum.splits)

lemma try_block_completes:
  assumes "try_block D N s0 = (None, s', reqs)"
  shows "\<exists>p R E.
       fetch_json (fetch_profile N (profile_url (username s0))) ''User not found or API limit exceeded'' = Inr p
     \<and> fetch_json (fetch_repos N (repos_url (username s0))) ''Failed to fetch repositories'' = Inr R
     \<and> fetch_json (fetch_events N (events_url (username s0))) ''Failed to fetch commit data'' = Inr E
     \<and> s' = s0\<lparr>profile := Some p, repos := R, languageStats := langStats R,
               commitData := processedCommitData D E\<rparr>
     \<and> reqs = [(profile_url (username s0), s0),
               (repos_url (username s0), s0\<lparr>profile := Some p\<rparr>),
               (events_url (username s0),
                  s0\<lparr>profile := Some p, repos := R, languageStats := langStats R\<rparr>)]"
  using assms by (auto simp: try_block_def Let_def split: sum.splits)

lemma try_block_in_flight:
  assumes "try_block D N s0 = (r, s', reqs)" and "(u, st) \<in> set reqs"
  shows "loading st = loading s0 \<and> error st = error s0 \<and> username st = username s0"
  using assms by (auto simp: try_block_def Let_def split: sum.splits)

lemma try_block_requests:
  assumes "try_block D N s0 = (r, s', reqs)"
  shows "reqs \<noteq> [] \<and> hd reqs = (profile_url (username s0), s0)"
  using assms by (auto simp: try_block_def Let_def split: sum.splits)

lemma try_block_keeps:
  assumes "try_block D N s0 = (r, s', reqs)"
  shows "loading s' = loading s0 \<and> error s' = error s0 \<and> username s' = username s0"
  using assms by (auto simp: try_block_def Let_def split: sum.splits)

lemma fetch_json_not_fails: "fetch_json r msg = Inr x \<Longrightarrow> \<not> fetch_fails r"
  unfolding fetch_json_fails [of r msg] by simp

lemma fetch_json_thrown_fails: "fetch_json r msg = Inl e \<Longrightarrow> fetch_fails r"
  unfolding fetch_json_fails [of r msg] by simp

lemma failed_cycle:
  assumes "username s \<noteq> []"
    and "fetch_fails (fetch_profile N (profile_url (username s)))
         \<or> fetch_fails (fetch_repos N (repos_url (username s)))
         \<or> fetch_fails (fetch_events N (events_url (username s)))"
  shows "\<exists>err s'. final (fetchGitHubData D N s) = finally_block (catch_block err s')
     \<and> (fetch_json (fetch_profile N (profile_url (username s)))
             ''User not found or API limit exceeded'' = Inl err
         \<or> fetch_json (fetch_repos N (repos_url (username s)))
             ''Failed to fetch repositories'' = Inl err
         \<or> fetch_json (fetch_events N (events_url (username s)))
             ''Failed to fetch commit data'' = Inl err)"
proof -
  let ?s0 = "s\<lparr>loading := True, error := []\<rparr>"
  obtain r s' reqs where tb: "try_block D N ?s0 = (r, s', reqs)"
    by (cases "try_block D N ?s0") auto
  have "r \<noteq> None"
  proof
    assume "r = None"
    with tb try_block_completes [of D N ?s0 s' reqs]
    have "\<not> fetch_fails (fetch_profile N (profile_url (username s)))
        \<and> \<not> fetch_fails (fetch_repos N (repos_url (username s)))
        \<and> \<not> fetch_fails (fetch_events N (events_url (username s)))"
      by (auto dest: fetch_json_not_fails)
    with assms(2) show False by simp
  qed
  then obtain err where r: "r = Some err" by auto
  with tb assms(1) have "final (fetchGitHubData D N s) = finally_block (catch_block err s')"
    by (simp add: fetchGitHubData_def)
  with try_block_thrown [OF tb [unfolded r]] show ?thesis by auto
qed

lemma in_flight_first:
  assumes "username s \<noteq> []"
  shows "take 1 (in_flight (fetchGitHubData D N s))
           = [(profile_url (username s), s\<lparr>loading := True, error := []\<rparr>)]"
  using assms
  by (simp add: fetchGitHubData_def try_block_def Let_def split: sum.splits)

lemma in_flight_second:
  assumes "username s \<noteq> []"
    and "fetch_profile N (profile_url (username s)) = Inr \<lparr>ok = True, json = Inr p\<rparr>"
  shows "take 2 (in_flight (fetchGitHubData D N s))
           = [(profile_url (username s), s\<lparr>loading := True, error := []\<rparr>),
              (repos_url (username s), s\<lparr>loading := True, error := [], profile := Some p\<rparr>)]"
  using assms
  by (simp add: fetchGitHubData_def try_block_def fetch_json_ok Let_def split: sum.splits)

lemma in_flight_third:
  assumes "username s \<noteq> []"
    and "fetch_profile N (profile_url (username s)) = Inr \<lparr>ok = True, json = Inr p\<rparr>"
    and "fetch_repos N (repos_url (username s)) = Inr \<lparr>ok = True, json = Inr R\<rparr>"
  shows "in_flight (fetchGitHubData D N s)
           = [(profile_url (username s), s\<lparr>loading := True, error := []\<rparr>),
              (repos_url (username s), s\<lparr>loading := True, error := [], profile := Some p\<rparr>),
              (events_url (username s),
                s\<lparr>loading := True, error := [], profile := Some p, repos := R,
                  languageStats := langStats R\<rparr>)]"
  using assms
  by (simp add: fetchGitHubData_def try_block_def fetch_json_ok Let_def split: sum.splits)

lemma final_of_success:
  assumes "username s \<noteq> []"
    and "fetch_profile N (profile_url (username s)) = Inr \<lparr>ok = True, json = Inr p\<rparr>"
    and "fetch_repos N (repos_url (username s)) = Inr \<lparr>ok = True, json = Inr R\<rparr>"
    and "fetch_events N (events_url (username s)) = Inr \<lparr>ok = True, json = Inr E\<rparr>"
  shows "final (fetchGitHubData D N s)
           = s\<lparr>loading := False, error := [], profile := Some p, repos := R,
               languageStats := langStats R, commitData := processedCommitData D E\<rparr>"
  using assms
  by (simp add: fetchGitHubData_def try_block_def fetch_json_ok finally_block_def Let_def)

subsection \<open>Unfolding the program on concrete data\<close>

lemmas example_defs = en_US_UTC_def push_def watch_def example_events_def repo_def
  example_repos_def profile_of_def responds_def network_up_def after_alice_def
  profile_missing_def repos_unreachable_def events_malformed_def failed_with_def

lemmas run_defs = processedCommitData_def commitsByDate_def langStats_def langMap_def
  get_or_zero_def js_sort_def date_cmp_def Object_entries_def is_push_def local_date_def
  pushes_on_def has_language_def

lemmas cycle_defs = fetchGitHubData_def try_block_def fetch_json_def catch_block_def
  finally_block_def profile_url_def repos_url_def events_url_def fetch_fails_def
  thrown_with_message_def cleared_def Let_def

section \<open>The aggregator\<close>

text \<open>
  The statements about membership, distinctness and sums below do not depend on the order
  of the series, so they hold of any permutation of it as well; only the two statements
  about sortedness depend on the order \<open>js_sort\<close> computes.
\<close>

text \<open>
  Claim C1. The activity series has exactly one entry per date string that a push event of
  the listing is filed under: the dates of the series are pairwise distinct and are exactly
  the local dates of the push events. The value of each entry is the sum of the sizes of
  the push events filed under its date. Events of any other kind contribute nothing: the
  series of a listing is the series of its push events alone. In particular two push events
  on the same local date with sizes 2 and 5 give the single entry with value 7.
\<close>

theorem activity_series_per_date:
  "distinct (map date (processedCommitData D E))
   \<and> date ` set (processedCommitData D E) = local_date D ` set (filter is_push E)
   \<and> (\<forall>p\<in>set (processedCommitData D E).
         commit_count p = sum_list (map payload_size (pushes_on D E (date p))))
   \<and> processedCommitData D (filter is_push E) = processedCommitData D E
   \<and> (is_push e1 \<and> is_push e2 \<and> local_date D e1 = local_date D e2
        \<and> payload_size e1 = 2 \<and> payload_size e2 = 5
      \<longrightarrow> processedCommitData D [e1, e2] = [\<lparr>date = local_date D e1, commit_count = 7\<rparr>])"
proof -
  have "processedCommitData D [e1, e2] = [\<lparr>date = local_date D e1, commit_count = 7\<rparr>]"
    if "is_push e1" "is_push e2" "local_date D e1 = local_date D e2"
      "payload_size e1 = 2" "payload_size e2 = 5"
    using that
    by (simp add: processedCommitData_def commitsByDate_def get_or_zero_def js_sort_def
        Object_entries_def is_push_def local_date_def)
  then show ?thesis
    by (simp add: distinct_processed dates_processed entry_processed processed_pushes)
qed

theorem activity_series_per_date_witness:
  "is_push (push ''2024-01-02T18:30:00Z'' 2) \<and> is_push (push ''2024-01-02T10:00:00Z'' 5)
   \<and> local_date en_US_UTC (push ''2024-01-02T18:30:00Z'' 2) =
       local_date en_US_UTC (push ''2024-01-02T10:00:00Z'' 5)
   \<and> processedCommitData en_US_UTC
        [push ''2024-01-02T18:30:00Z'' 2, push ''2024-01-02T10:00:00Z'' 5]
       = [\<lparr>date = ''1/2/2024'', commit_count = 7\<rparr>]
   \<and> \<lparr>date = ''1/2/2024'', commit_count = 7\<rparr> \<in> set (processedCommitData en_US_UTC example_events)
   \<and> sum_list (map payload_size (pushes_on en_US_UTC example_events ''1/2/2024'')) = 7"
  using activity_series_per_date [of en_US_UTC example_events
      "push ''2024-01-02T18:30:00Z'' 2" "push ''2024-01-02T10:00:00Z'' 5"]
  by (simp add: example_defs run_defs)

text \<open>
  Claim C2. The counts of the language histogram sum to the number of repositories whose
  language field is present and non-empty. Repositories with no declared language
  contribute to no entry: the histogram of a listing is the histogram of its repositories
  that have a language. In particular three repositories with the languages Go, Go and
  TypeScript give the histogram (Go, 2), (TypeScript, 1).
\<close>

theorem language_histogram_total:
  "sum_list (map lang_count (langStats R)) = int (length (filter has_language R))
   \<and> langStats (filter has_language R) = langStats R
   \<and> langStats [a\<lparr>language := Some ''Go''\<rparr>, b\<lparr>language := Some ''Go''\<rparr>,
                 c\<lparr>language := Some ''TypeScript''\<rparr>]
       = [\<lparr>lang_name = ''Go'', lang_count = 2\<rparr>, \<lparr>lang_name = ''TypeScript'', lang_count = 1\<rparr>]"
proof (intro conjI)
  show "sum_list (map lang_count (langStats R)) = int (length (filter has_language R))"
    by (rule sum_langStats)
  show "langStats (filter has_language R) = langStats R"
    by (rule langStats_filter)
  show "langStats [a\<lparr>language := Some ''Go''\<rparr>, b\<lparr>language := Some ''Go''\<rparr>,
                  c\<lparr>language := Some ''TypeScript''\<rparr>]
        = [\<lparr>lang_name = ''Go'', lang_count = 2\<rparr>, \<lparr>lang_name = ''TypeScript'', lang_count = 1\<rparr>]"
    by (rule langStats_Go_Go_TypeScript)
qed



text \<open>
  Claim C6. The language histogram is in non-increasing order of count, and every language
  that is the non-empty language of some repository of the listing appears in it exactly
  once: the names of the histogram are pairwise distinct and are exactly those languages.
\<close>

theorem language_histogram_sorted:
  "sorted_wrt (\<lambda>a b. lang_count b \<le> lang_count a) (langStats R)
   \<and> distinct (map lang_name (langStats R))
   \<and> lang_name ` set (langStats R) = {l. l \<noteq> [] \<and> (\<exists>r\<in>set R. language r = Some l)}"
proof -
  have "lang_name ` set (langStats R) = lang_of ` set (filter has_language R)"
    by (simp add: names_langStats langMap_tally keys_tally)
  then show ?thesis
    by (simp only: sorted_langStats distinct_langStats declared_languages simp_thms)
qed

text \<open>
  Claim C7. A date with at least one push event appears in the activity series, also when
  the sizes of its push events sum to zero: the entry is then present with the value 0.
\<close>

theorem zero_sum_day_included:
  assumes "e \<in> set E" and "is_push e"
  shows "local_date D e \<in> date ` set (processedCommitData D E)
         \<and> (sum_list (map payload_size (pushes_on D E (local_date D e))) = 0
            \<longrightarrow> \<lparr>date = local_date D e, commit_count = 0\<rparr> \<in> set (processedCommitData D E))"
proof -
  from assms have mem: "local_date D e \<in> date ` set (processedCommitData D E)"
    by (simp add: dates_processed)
  then obtain p where p: "p \<in> set (processedCommitData D E)" "date p = local_date D e"
    by auto
  have "commit_count p = sum_list (map payload_size (pushes_on D E (local_date D e)))"
    using entry_processed [OF p(1)] p(2) by simp
  then have "sum_list (map payload_size (pushes_on D E (local_date D e))) = 0
             \<Longrightarrow> p = \<lparr>date = local_date D e, commit_count = 0\<rparr>"
    using p(2) by simp
  with p(1) mem show ?thesis by auto
qed

theorem zero_sum_day_included_witness:
  "push ''2024-01-02T10:00:00Z'' 0
     \<in> set [push ''2024-01-01T09:00:00Z'' 4, push ''2024-01-02T10:00:00Z'' 0,
            push ''2024-01-02T18:30:00Z'' 0]
   \<and> is_push (push ''2024-01-02T10:00:00Z'' 0)
   \<and> sum_list (map payload_size (pushes_on en_US_UTC
        [push ''2024-01-01T09:00:00Z'' 4, push ''2024-01-02T10:00:00Z'' 0,
         push ''2024-01-02T18:30:00Z'' 0] ''1/2/2024'')) = 0
   \<and> processedCommitData en_US_UTC
        [push ''2024-01-01T09:00:00Z'' 4, push ''2024-01-02T10:00:00Z'' 0,
         push ''2024-01-02T18:30:00Z'' 0]
       = [\<lparr>date = ''1/1/2024'', commit_count = 4\<rparr>, \<lparr>date = ''1/2/2024'', commit_count = 0\<rparr>]"
  using zero_sum_day_included [of "push ''2024-01-02T10:00:00Z'' 0"
      "[push ''2024-01-01T09:00:00Z'' 4, push ''2024-01-02T10:00:00Z'' 0,
        push ''2024-01-02T18:30:00Z'' 0]" en_US_UTC]
  by (simp add: example_defs run_defs)

text \<open>
  Claim C9. Every entry of the language histogram has a count of at least 1: its count is
  the number of repositories of the listing that declare its language, and there is such a
  repository.
\<close>

theorem histogram_counts_positive:
  "\<forall>s\<in>set (langStats R).
      1 \<le> lang_count s
      \<and> lang_count s = int (length (filter (\<lambda>r. language r = Some (lang_name s)) R))
      \<and> (\<exists>r\<in>set R. language r = Some (lang_name s))"
proof
  fix s assume s: "s \<in> set (langStats R)"
  from count_langStats(2) [OF s] have name: "lang_name s \<noteq> []"
    and ex: "\<exists>r\<in>set R. language r = Some (lang_name s)"
    by (auto simp: has_language_def lang_of_def split: option.splits)
  from name have "filter (\<lambda>r. lang_of r = lang_name s) (filter has_language R)
                  = filter (\<lambda>r. language r = Some (lang_name s)) R"
    by (auto simp: has_language_def lang_of_def split: option.splits intro!: filter_cong)
  with count_langStats(1) [OF s]
  have "lang_count s = int (length (filter (\<lambda>r. language r = Some (lang_name s)) R))"
    by simp
  with positive_langStats [OF s] ex
  show "1 \<le> lang_count s
      \<and> lang_count s = int (length (filter (\<lambda>r. language r = Some (lang_name s)) R))
      \<and> (\<exists>r\<in>set R. language r = Some (lang_name s))"
    by simp
qed

theorem histogram_counts_positive_witness:
  "langStats example_repos
     = [\<lparr>lang_name = ''Go'', lang_count = 2\<rparr>, \<lparr>lang_name = ''TypeScript'', lang_count = 1\<rparr>]
   \<and> 1 \<le> lang_count \<lparr>lang_name = ''Go'', lang_count = 2\<rparr>
   \<and> 1 \<le> lang_count \<lparr>lang_name = ''TypeScript'', lang_count = 1\<rparr>
   \<and> language (repo 3 (Some ''Go'')) = Some ''Go''
   \<and> language (repo 1 (Some ''TypeScript'')) = Some ''TypeScript''"
  using histogram_counts_positive [of example_repos]
  by (simp add: example_defs run_defs)

section \<open>The query cycle\<close>

text \<open>
  Claim C3. When any of the three requests of a query cycle fails, the state at the end of
  the cycle has no profile, no repositories, an empty histogram and an empty activity
  series, whichever request failed; the loading flag is reset; and the error message is
  not empty, the messages of the errors thrown by the runtime being non-empty.
\<close>

theorem failed_fetch_clears_views:
  assumes "username s \<noteq> []"
    and "fetch_fails (fetch_profile N (profile_url (username s)))
         \<or> fetch_fails (fetch_repos N (repos_url (username s)))
         \<or> fetch_fails (fetch_events N (events_url (username s)))"
  shows "profile (final (fetchGitHubData D N s)) = None
     \<and> repos (final (fetchGitHubData D N s)) = []
     \<and> languageStats (final (fetchGitHubData D N s)) = []
     \<and> commitData (final (fetchGitHubData D N s)) = []
     \<and> \<not> loading (final (fetchGitHubData D N s))
     \<and> (thrown_with_message (fetch_profile N (profile_url (username s)))
        \<and> thrown_with_message (fetch_repos N (repos_url (username s)))
        \<and> thrown_with_message (fetch_events N (events_url (username s)))
        \<longrightarrow> error (final (fetchGitHubData D N s)) \<noteq> [])"
proof -
  from failed_cycle [OF assms, of D] obtain err s'
    where fin: "final (fetchGitHubData D N s) = finally_block (catch_block err s')"
      and thrown: "fetch_json (fetch_profile N (profile_url (username s)))
             ''User not found or API limit exceeded'' = Inl err
         \<or> fetch_json (fetch_repos N (repos_url (username s)))
             ''Failed to fetch repositories'' = Inl err
         \<or> fetch_json (fetch_events N (events_url (username s)))
             ''Failed to fetch commit data'' = Inl err"
    by blast
  have "error (final (fetchGitHubData D N s)) \<noteq> []"
    if "thrown_with_message (fetch_profile N (profile_url (username s)))"
      "thrown_with_message (fetch_repos N (repos_url (username s)))"
      "thrown_with_message (fetch_events N (events_url (username s)))"
  proof -
    from thrown that have "err \<noteq> Error []"
      by (auto dest!: fetch_json_message)
    then show ?thesis unfolding fin by (rule catch_block_error)
  qed
  moreover have "cleared (final (fetchGitHubData D N s))"
    unfolding fin by (rule catch_block_cleared)
  moreover have "\<not> loading (final (fetchGitHubData D N s))"
    unfolding fin by (rule finally_block_loading)
  ultimately show ?thesis by (simp add: cleared_def)
qed

theorem failed_fetch_clears_views_witness:
  "username after_alice \<noteq> []
   \<and> fetch_fails (fetch_profile profile_missing (profile_url (username after_alice)))
   \<and> final (fetchGitHubData en_US_UTC profile_missing after_alice)
       = failed_with ''User not found or API limit exceeded''
   \<and> fetch_fails (fetch_repos repos_unreachable (repos_url (username after_alice)))
   \<and> thrown_with_message (fetch_repos repos_unreachable (repos_url (username after_alice)))
   \<and> final (fetchGitHubData en_US_UTC repos_unreachable after_alice)
       = failed_with ''Failed to fetch''
   \<and> fetch_fails (fetch_events events_malformed (events_url (username after_alice)))
   \<and> thrown_with_message (fetch_events events_malformed (events_url (username after_alice)))
   \<and> final (fetchGitHubData en_US_UTC events_malformed after_alice)
       = failed_with ''Unexpected token''"
  using failed_fetch_clears_views [of after_alice profile_missing en_US_UTC]
    failed_fetch_clears_views [of after_alice repos_unreachable en_US_UTC]
    failed_fetch_clears_views [of after_alice events_malformed en_US_UTC]
  by (simp add: cycle_defs example_defs)

text \<open>
  Claim C4 as stated does not hold: the views are not replaced together. In the cycle for
  bob that starts from the state left by the query for alice, the request for the
  repositories is in flight while the published profile is already that of bob and the
  published repositories, histogram and activity series are still those of alice.
\<close>

theorem profile_published_before_repositories:
  "fst (in_flight (fetchGitHubData en_US_UTC network_up after_alice) ! 1)
     = ''https://api.github.com/users/bob/repos?sort=updated&per_page=100''
   \<and> profile (snd (in_flight (fetchGitHubData en_US_UTC network_up after_alice) ! 1))
       = Some (profile_of ''bob'')
   \<and> repos (snd (in_flight (fetchGitHubData en_US_UTC network_up after_alice) ! 1))
       = repos after_alice
   \<and> languageStats (snd (in_flight (fetchGitHubData en_US_UTC network_up after_alice) ! 1))
       = languageStats after_alice
   \<and> commitData (snd (in_flight (fetchGitHubData en_US_UTC network_up after_alice) ! 1))
       = commitData after_alice
   \<and> profile after_alice = Some (profile_of ''alice'')
   \<and> repos after_alice = [repo 1 (Some ''TypeScript'')]
   \<and> repos (final (fetchGitHubData en_US_UTC network_up after_alice)) = [repo 7 (Some ''Go'')]"
  by (simp add: cycle_defs example_defs)

text \<open>
  Claim C4, amended. At the end of a query cycle the four views are mutually consistent:
  when a request failed all four are empty, and when the three requests succeeded the
  profile, the repositories, the histogram and the activity series are those of the three
  responses of this cycle. During the cycle the requests are issued one after the other
  and each view is published when its own response has been processed: the first request
  is in flight with the previous views, the second with the new profile beside the
  previous repositories, histogram and activity series, the third with the new profile,
  repositories and histogram beside the previous activity series.
\<close>

theorem views_consistent_at_end_of_cycle:
  assumes "username s \<noteq> []"
  shows "(fetch_fails (fetch_profile N (profile_url (username s)))
          \<or> fetch_fails (fetch_repos N (repos_url (username s)))
          \<or> fetch_fails (fetch_events N (events_url (username s)))
         \<longrightarrow> cleared (final (fetchGitHubData D N s)))
     \<and> (fetch_profile N (profile_url (username s)) = Inr \<lparr>ok = True, json = Inr p\<rparr>
        \<and> fetch_repos N (repos_url (username s)) = Inr \<lparr>ok = True, json = Inr R\<rparr>
        \<and> fetch_events N (events_url (username s)) = Inr \<lparr>ok = True, json = Inr E\<rparr>
        \<longrightarrow> profile (final (fetchGitHubData D N s)) = Some p
          \<and> repos (final (fetchGitHubData D N s)) = R
          \<and> languageStats (final (fetchGitHubData D N s)) = langStats R
          \<and> commitData (final (fetchGitHubData D N s)) = processedCommitData D E)
     \<and> take 1 (in_flight (fetchGitHubData D N s))
          = [(profile_url (username s), s\<lparr>loading := True, error := []\<rparr>)]
     \<and> (fetch_profile N (profile_url (username s)) = Inr \<lparr>ok = True, json = Inr p\<rparr>
        \<longrightarrow> take 2 (in_flight (fetchGitHubData D N s))
          = [(profile_url (username s), s\<lparr>loading := True, error := []\<rparr>),
             (repos_url (username s), s\<lparr>loading := True, error := [], profile := Some p\<rparr>)])
     \<and> (fetch_profile N (profile_url (username s)) = Inr \<lparr>ok = True, json = Inr p\<rparr>
        \<and> fetch_repos N (repos_url (username s)) = Inr \<lparr>ok = True, json = Inr R\<rparr>
        \<longrightarrow> in_flight (fetchGitHubData D N s)
          = [(profile_url (username s), s\<lparr>loading := True, error := []\<rparr>),
             (repos_url (username s), s\<lparr>loading := True, error := [], profile := Some p\<rparr>),
             (events_url (username s),
              s\<lparr>loading := True, error := [], profile := Some p, repos := R,
                languageStats := langStats R\<rparr>)])"
proof -
  have "cleared (final (fetchGitHubData D N s))"
    if "fetch_fails (fetch_profile N (profile_url (username s)))
          \<or> fetch_fails (fetch_repos N (repos_url (username s)))
          \<or> fetch_fails (fetch_events N (events_url (username s)))"
    using failed_cycle [OF assms that, of D] catch_block_cleared by auto
  moreover have "profile (final (fetchGitHubData D N s)) = Some p
          \<and> repos (final (fetchGitHubData D N s)) = R
          \<and> languageStats (final (fetchGitHubData D N s)) = langStats R
          \<and> commitData (final (fetchGitHubData D N s)) = processedCommitData D E"
    if "fetch_profile N (profile_url (username s)) = Inr \<lparr>ok = True, json = Inr p\<rparr>"
      "fetch_repos N (repos_url (username s)) = Inr \<lparr>ok = True, json = Inr R\<rparr>"
      "fetch_events N (events_url (username s)) = Inr \<lparr>ok = True, json = Inr E\<rparr>"
    by (simp add: final_of_success [OF assms that])
  ultimately show ?thesis
    using in_flight_first [OF assms, of D N] in_flight_second [OF assms, of N p D]
      in_flight_third [OF assms, of N p R D]
    by blast
qed

theorem views_consistent_at_end_of_cycle_witness:
  "username after_alice \<noteq> []
   \<and> fetch_fails (fetch_repos repos_unreachable (repos_url (username after_alice)))
   \<and> cleared (final (fetchGitHubData en_US_UTC repos_unreachable after_alice))
   \<and> map fst (in_flight (fetchGitHubData en_US_UTC repos_unreachable after_alice))
       = [''https://api.github.com/users/bob'',
          ''https://api.github.com/users/bob/repos?sort=updated&per_page=100'']
   \<and> fetch_profile network_up (profile_url (username after_alice))
       = Inr \<lparr>ok = True, json = Inr (profile_of ''bob'')\<rparr>
   \<and> fetch_repos network_up (repos_url (username after_alice))
       = Inr \<lparr>ok = True, json = Inr [repo 7 (Some ''Go'')]\<rparr>
   \<and> fetch_events network_up (events_url (username after_alice))
       = Inr \<lparr>ok = True, json = Inr example_events\<rparr>
   \<and> final (fetchGitHubData en_US_UTC network_up after_alice)
       = \<lparr>username = ''bob'', repos = [repo 7 (Some ''Go'')],
          profile = Some (profile_of ''bob''),
          commitData = [\<lparr>date = ''12/31/2023'', commit_count = 1\<rparr>,
                        \<lparr>date = ''1/1/2024'', commit_count = 4\<rparr>,
                        \<lparr>date = ''1/2/2024'', commit_count = 7\<rparr>],
          languageStats = [\<lparr>lang_name = ''Go'', lang_count = 1\<rparr>],
          loading = False, error = []\<rparr>"
  using views_consistent_at_end_of_cycle [of after_alice repos_unreachable en_US_UTC]
    views_consistent_at_end_of_cycle [of after_alice network_up en_US_UTC
      "profile_of ''bob''" "[repo 7 (Some ''Go'')]" example_events]
  by (simp add: cycle_defs example_defs run_defs)

text \<open>
  Claim C8. Submitting an empty identifier issues no request and leaves the whole state
  as it was: profile, repositories, histogram, activity series, loading flag and error
  message.
\<close>

theorem empty_query_is_noop:
  "username s = [] \<Longrightarrow> fetchGitHubData D N s = \<lparr>final = s, in_flight = []\<rparr>"
  by (simp add: fetchGitHubData_def)

theorem empty_query_is_noop_witness:
  "username (after_alice\<lparr>username := []\<rparr>) = []
   \<and> fetchGitHubData en_US_UTC network_up (after_alice\<lparr>username := []\<rparr>)
       = \<lparr>final = after_alice\<lparr>username := []\<rparr>, in_flight = []\<rparr>"
  using empty_query_is_noop [of "after_alice\<lparr>username := []\<rparr>" en_US_UTC network_up]
  by simp

text \<open>
  Claim C10. In a query cycle with a non-empty identifier the loading flag is true (and the
  error message empty) while each of its requests is in flight, and the flag is false at the
  end of the cycle, whether the cycle succeeded or failed. After a cycle in which no
  request failed the error message is the empty string.
\<close>

theorem loading_flag_brackets_cycle:
  assumes "username s \<noteq> []"
  shows "in_flight (fetchGitHubData D N s) \<noteq> []
     \<and> (\<forall>(u, st)\<in>set (in_flight (fetchGitHubData D N s)). loading st \<and> error st = [])
     \<and> \<not> loading (final (fetchGitHubData D N s))
     \<and> (\<not> fetch_fails (fetch_profile N (profile_url (username s)))
        \<and> \<not> fetch_fails (fetch_repos N (repos_url (username s)))
        \<and> \<not> fetch_fails (fetch_events N (events_url (username s)))
        \<longrightarrow> error (final (fetchGitHubData D N s)) = [])"
proof -
  let ?s0 = "s\<lparr>loading := True, error := []\<rparr>"
  obtain r s' reqs where tb: "try_block D N ?s0 = (r, s', reqs)"
    by (cases "try_block D N ?s0") auto
  from tb assms have reqs: "in_flight (fetchGitHubData D N s) = reqs"
    by (cases r) (simp_all add: fetchGitHubData_def)
  from tb assms have fin: "final (fetchGitHubData D N s) =
      finally_block (case r of None \<Rightarrow> s' | Some err \<Rightarrow> catch_block err s')"
    by (cases r) (simp_all add: fetchGitHubData_def)
  have "reqs \<noteq> []" using try_block_requests [OF tb] by simp
  moreover have "\<forall>(u, st)\<in>set reqs. loading st \<and> error st = []"
    using try_block_in_flight [OF tb] by auto
  moreover have "\<not> loading (final (fetchGitHubData D N s))"
    unfolding fin by (rule finally_block_loading)
  moreover have "error (final (fetchGitHubData D N s)) = []"
    if ok: "\<not> fetch_fails (fetch_profile N (profile_url (username s)))"
      "\<not> fetch_fails (fetch_repos N (repos_url (username s)))"
      "\<not> fetch_fails (fetch_events N (events_url (username s)))"
  proof (cases r)
    case None
    with try_block_keeps [OF tb] show ?thesis
      by (simp add: fin finally_block_def)
  next
    case (Some err)
    from try_block_thrown [OF tb [unfolded Some]] ok show ?thesis
      by (auto dest: fetch_json_thrown_fails)
  qed
  ultimately show ?thesis by (simp add: reqs)
qed

theorem loading_flag_brackets_cycle_witness:
  "username after_alice \<noteq> []
   \<and> map (\<lambda>(u, st). (u, loading st, error st))
        (in_flight (fetchGitHubData en_US_UTC network_up after_alice))
       = [(''https://api.github.com/users/bob'', True, []),
          (''https://api.github.com/users/bob/repos?sort=updated&per_page=100'', True, []),
          (''https://api.github.com/users/bob/events'', True, [])]
   \<and> \<not> loading (final (fetchGitHubData en_US_UTC network_up after_alice))
   \<and> \<not> fetch_fails (fetch_profile network_up (profile_url (username after_alice)))
   \<and> \<not> fetch_fails (fetch_repos network_up (repos_url (username after_alice)))
   \<and> \<not> fetch_fails (fetch_events network_up (events_url (username after_alice)))
   \<and> error (final (fetchGitHubData en_US_UTC network_up after_alice)) = []"
  using loading_flag_brackets_cycle [of after_alice en_US_UTC network_up]
  by (simp add: cycle_defs example_defs)

end
